theory Spec2Isabelle
  imports Main
begin

section \<open>Values, rows and exceptions\<close>

text \<open>
  The analyser only stores and copies the values it is handed: strings, the integer
  constant of the \<open>job_id\<close> column, time stamps, and everything else (floats, arrays,
  data sets), which is kept as an opaque code. A flat record (a Python \<open>dict\<close> with
  string keys) is a map; \<open>{**a, **b}\<close> is \<open>a ++ b\<close>, where the right operand wins.
\<close>

datatype pyval = PyStr string | PyInt int | PyDateTime nat | PyObj nat

type_synonym row = "string \<rightharpoonup> pyval"

text \<open>
  What can be raised. \<open>KeyError\<close>, \<open>IndexError\<close>, \<open>ValueError\<close> and \<open>OSError\<close> are the
  exceptions the analyser's own statements meet; \<open>Exception\<close> is any other instance of
  Python's class \<open>Exception\<close>; \<open>SystemExit\<close> and \<open>KeyboardInterrupt\<close> are instances of
  \<open>BaseException\<close> only (a unit of work that calls \<open>sys.exit\<close> raises the first, and
  the pool hands it to \<open>future.result()\<close> like any other). \<open>is_Exception\<close> is
  \<open>isinstance(exc, Exception)\<close>, what the handler \<open>except Exception\<close> tests.
\<close>

datatype exn = KeyError string | IndexError | ValueError | OSError string | Exception string
  | SystemExit int | KeyboardInterrupt

fun is_Exception :: "exn \<Rightarrow> bool" where
  "is_Exception (SystemExit code) = False"
| "is_Exception KeyboardInterrupt = False"
| "is_Exception exc = True"

text \<open>
  A printed line: a literal text, or \<open>str(exc)\<close> of an exception, whose wording is
  the exception's own matter and is not spelled out.
\<close>

datatype line = Text string | StrOf exn

section \<open>The collaborators: score report and classifier\<close>

text \<open>
  The score report, as \<open>add_to_prediction_log\<close> reads it: per-label arrays, the scalar
  accuracy and the aggregate tuple \<open>totals = (precision, recall, f1, support)\<close>.
\<close>

record score =
  labels :: "pyval list"
  precision :: "pyval list"
  recall :: "pyval list"
  f1 :: "pyval list"
  support :: "pyval list"
  accuracy :: pyval
  totals :: "pyval \<times> pyval \<times> pyval \<times> pyval"

text \<open>
  Modelled from the spec: the classifier (\<open>aibrite.ml.neuralnet.NeuralNet\<close>, not under
  src/). The spec gives it a class name and a stable instance identifier, a
  hyperparameter mapping, a training routine that invokes its callback once per
  training iteration, and a prediction routine. A classifier instance is described by
  what these return: \<open>train_iterations\<close> are the iteration data (already as dicts, the
  \<open>_asdict()\<close> of each) the training routine hands to its callback, in order;
  \<open>train_raises\<close> is the exception it raises after them, if any; \<open>predict\<close> gives the
  \<open>predicted\<close> field of the prediction result, or raises.
\<close>

record neuralnet =
  class_name :: string
  instance_id :: pyval
  get_hyperparameters :: row
  labels_neuralnet :: pyval
  train_iterations :: "row list"
  train_raises :: "exn option"
  predict :: "pyval \<Rightarrow> exn + pyval"

definition train :: "neuralnet \<Rightarrow> (neuralnet \<Rightarrow> row \<Rightarrow> 's \<Rightarrow> 's) \<Rightarrow> 's \<Rightarrow> exn option \<times> 's" where
  "train neuralnet callback st =
     (train_raises neuralnet, fold (callback neuralnet) (train_iterations neuralnet) st)"

section \<open>AnalyserJob\<close>

record analyser_job =
  id_job :: string
  status :: string
  prediction_data :: "row list"
  train_data :: "row list"

definition AnalyserJob :: "string \<Rightarrow> analyser_job" where
  "AnalyserJob uuid4 =
     \<lparr>id_job = uuid4, status = ''created'', prediction_data = [], train_data = []\<rparr>"

text \<open>
  \<open>add_to_train_log\<close>: \<open>now\<close> is the reading of \<open>datetime.datetime.now()\<close>. The result
  is the returned record and the job with the record appended.
\<close>

definition add_to_train_log ::
  "analyser_job \<Rightarrow> neuralnet \<Rightarrow> pyval \<Rightarrow> row \<Rightarrow> row option \<Rightarrow> row \<times> analyser_job" where
  "add_to_train_log self neuralnet now train_data_arg extra_data_arg =
     (let extra_data = (case extra_data_arg of Some e \<Rightarrow> e | None \<Rightarrow> Map.empty);
          hyper_parameters = get_hyperparameters neuralnet;
          base_cols = [''timestamp'' \<mapsto> now,
                       ''classifier'' \<mapsto> PyStr (class_name neuralnet),
                       ''classifier_id'' \<mapsto> instance_id neuralnet];
          data = base_cols ++ train_data_arg ++ hyper_parameters ++ extra_data
      in (data, self\<lparr>train_data := train_data self @ [data]\<rparr>))"

text \<open>Indexing a per-label array: Python raises \<open>IndexError\<close> past the end.\<close>

definition getitem :: "pyval list \<Rightarrow> nat \<Rightarrow> exn + pyval" where
  "getitem xs i = (if i < length xs then Inr (xs ! i) else Inl IndexError)"

text \<open>
  The body of the loop over \<open>enumerate(score.labels)\<close>: the row of label \<open>i\<close>. The five
  subscripts are evaluated in the order of the dict display.
\<close>

definition label_row ::
  "neuralnet \<Rightarrow> pyval \<Rightarrow> pyval \<Rightarrow> score \<Rightarrow> row \<Rightarrow> row \<Rightarrow> nat \<Rightarrow> exn + row" where
  "label_row neuralnet now test_set_id score hyper_parameters extra_data i =
     (case getitem (precision score) i of Inl e \<Rightarrow> Inl e | Inr p \<Rightarrow>
      case getitem (recall score) i of Inl e \<Rightarrow> Inl e | Inr r \<Rightarrow>
      case getitem (f1 score) i of Inl e \<Rightarrow> Inl e | Inr f \<Rightarrow>
      case getitem (labels score) i of Inl e \<Rightarrow> Inl e | Inr l \<Rightarrow>
      case getitem (support score) i of Inl e \<Rightarrow> Inl e | Inr s \<Rightarrow>
        Inr ([''timestamp'' \<mapsto> now,
              ''classifier'' \<mapsto> PyStr (class_name neuralnet),
              ''classifier_id'' \<mapsto> instance_id neuralnet,
              ''test_set'' \<mapsto> test_set_id,
              ''precision'' \<mapsto> p,
              ''recall'' \<mapsto> r,
              ''accuracy'' \<mapsto> accuracy score,
              ''f1'' \<mapsto> f,
              ''label'' \<mapsto> l,
              ''support'' \<mapsto> s,
              ''job_id'' \<mapsto> PyInt 1] ++ hyper_parameters ++ extra_data))"

text \<open>
  The loop itself, over the indices of \<open>score.labels\<close>: it stops at the first
  exception; otherwise it has computed one row per label.
\<close>

fun label_rows :: "(nat \<Rightarrow> exn + row) \<Rightarrow> nat list \<Rightarrow> exn + row list" where
  "label_rows body [] = Inr []"
| "label_rows body (i # is) =
     (case body i of Inl e \<Rightarrow> Inl e
      | Inr data \<Rightarrow> (case label_rows body is of Inl e \<Rightarrow> Inl e | Inr ds \<Rightarrow> Inr (data # ds)))"

definition totals_cols :: "neuralnet \<Rightarrow> pyval \<Rightarrow> pyval \<Rightarrow> score \<Rightarrow> row" where
  "totals_cols neuralnet now test_set_id score =
     (case totals score of (precision_t, recall_t, f1_t, support_t) \<Rightarrow>
        [''timestamp'' \<mapsto> now,
         ''classifier'' \<mapsto> PyStr (class_name neuralnet),
         ''classifier_id'' \<mapsto> instance_id neuralnet,
         ''test_set'' \<mapsto> test_set_id,
         ''precision'' \<mapsto> precision_t,
         ''recall'' \<mapsto> recall_t,
         ''accuracy'' \<mapsto> accuracy score,
         ''f1'' \<mapsto> f1_t,
         ''support'' \<mapsto> support_t,
         ''label'' \<mapsto> PyStr ''__totals__'',
         ''job_id'' \<mapsto> PyInt 1])"

text \<open>
  \<open>add_to_prediction_log\<close>: the rows of the labels are computed and dropped (each
  iteration overwrites \<open>data\<close>, and the assignment after the loop overwrites it again);
  only an exception of the loop is visible. The second \<open>base_cols\<close> is \<open>totals_cols\<close>.
\<close>

definition add_to_prediction_log ::
  "analyser_job \<Rightarrow> neuralnet \<Rightarrow> pyval \<Rightarrow> pyval \<Rightarrow> score \<Rightarrow> row option
     \<Rightarrow> (exn + row) \<times> analyser_job" where
  "add_to_prediction_log self neuralnet now test_set_id score extra_data_arg =
     (let extra_data = (case extra_data_arg of Some e \<Rightarrow> e | None \<Rightarrow> Map.empty);
          hyper_parameters = get_hyperparameters neuralnet
      in case label_rows (label_row neuralnet now test_set_id score hyper_parameters extra_data)
                [0 ..< length (labels score)] of
           Inl e \<Rightarrow> (Inl e, self)
         | Inr per_label \<Rightarrow>
             (let base_cols = totals_cols neuralnet now test_set_id score;
                  data = base_cols ++ hyper_parameters ++ extra_data
              in (Inr data, self\<lparr>prediction_data := prediction_data self @ [data]\<rparr>)))"

section \<open>The analyser and the worker pool\<close>

text \<open>
  A future of the pool. Python compares futures by identity: \<open>fid\<close> is the identity
  (the pool numbers the futures it creates), \<open>result\<close> is what \<open>future.result()\<close>
  returns (\<open>Inr\<close>, the pair the unit of work returned) or raises (\<open>Inl\<close>) once the
  future is done.
\<close>

record future =
  fid :: nat
  result :: "exn + row list \<times> row list"

record executor =
  max_workers :: "nat option"
  submitted :: nat

definition ProcessPoolExecutor :: "nat option \<Rightarrow> executor" where
  "ProcessPoolExecutor mw = \<lparr>max_workers = mw, submitted = 0\<rparr>"

definition executor_submit :: "executor \<Rightarrow> (exn + row list \<times> row list) \<Rightarrow> future \<times> executor" where
  "executor_submit ex res =
     (\<lparr>fid = submitted ex, result = res\<rparr>, ex\<lparr>submitted := Suc (submitted ex)\<rparr>)"

text \<open>
  The analyser object. The frames \<open>prediction_log\<close> and \<open>train_log\<close> are their rows in
  order (\<open>DataFrame.append(item, ignore_index=True)\<close> adds one row at the end). The
  attribute \<open>job_completed\<close> is a function of the analyser itself, so it is passed to
  \<open>start\<close> beside the object instead of being a field.
\<close>

record analyser =
  executor :: executor
  worker_list :: "future list"
  job_list :: "string \<rightharpoonup> analyser_job"
  log_dir :: string
  prediction_log :: "row list"
  train_log :: "row list"
  train_options :: row
  id_analyser :: string

text \<open>What the coordinator process leaves outside the object: printed lines and files.\<close>

record world =
  stdout :: "line list"
  files :: "string \<rightharpoonup> row list"
  dirs :: "string set"

type_synonym job_result = "row list \<times> row list"

type_synonym callback =
  "analyser \<times> world \<Rightarrow> job_result \<Rightarrow> exn option \<times> analyser \<times> world"

text \<open>\<open>os.path.join\<close> of two components (POSIX).\<close>

definition path_join :: "string \<Rightarrow> string \<Rightarrow> string" where
  "path_join a b =
     (if b \<noteq> [] \<and> hd b = CHR ''/'' then b
      else if a = [] \<or> last a = CHR ''/'' then a @ b
      else a @ ''/'' @ b)"

text \<open>
  \<open>save_logs\<close>: \<open>to_csv_raises\<close> tells for which paths the write raises; the prediction
  log is written first.
\<close>

definition save_logs :: "(string \<Rightarrow> exn option) \<Rightarrow> analyser \<Rightarrow> world \<Rightarrow> exn option \<times> world" where
  "save_logs to_csv_raises self w =
     (let pred_file = path_join (log_dir self) ''pred.csv'';
          train_file = path_join (log_dir self) ''train.csv''
      in case to_csv_raises pred_file of
           Some e \<Rightarrow> (Some e, w)
         | None \<Rightarrow>
            (let w1 = w\<lparr>files := (files w)(pred_file \<mapsto> prediction_log self)\<rparr>
             in case to_csv_raises train_file of
                  Some e \<Rightarrow> (Some e, w1)
                | None \<Rightarrow> (None, w1\<lparr>files := (files w1)(train_file \<mapsto> train_log self)\<rparr>)))"

definition init_logs :: "analyser \<Rightarrow> world \<Rightarrow> analyser \<times> world" where
  "init_logs self w =
     (self\<lparr>prediction_log := [], train_log := []\<rparr>,
      if log_dir self \<in> dirs w then w else w\<lparr>dirs := insert (log_dir self) (dirs w)\<rparr>)"

definition append_job_data :: "analyser \<Rightarrow> row list \<Rightarrow> row list \<Rightarrow> analyser" where
  "append_job_data self train_data_arg prediction_data_arg =
     (let self1 = fold (\<lambda>item s. s\<lparr>prediction_log := prediction_log s @ [item]\<rparr>)
                    prediction_data_arg self
      in fold (\<lambda>item s. s\<lparr>train_log := train_log s @ [item]\<rparr>) train_data_arg self1)"

text \<open>
  \<open>__init__\<close>: \<open>stamp\<close> is the formatted \<open>datetime.now()\<close>, \<open>uuid4\<close> the fresh
  \<open>str(uuid.uuid4())\<close>, \<open>cache\<close> the module's \<open>analyser_cache\<close>. The argument
  \<open>job_completed\<close> is only stored, see above.
\<close>

definition init ::
  "string option \<Rightarrow> nat option \<Rightarrow> (nat option \<Rightarrow> executor) \<Rightarrow> row option \<Rightarrow> string \<Rightarrow> string
     \<Rightarrow> (string \<rightharpoonup> analyser) \<Rightarrow> world \<Rightarrow> analyser \<times> (string \<rightharpoonup> analyser) \<times> world" where
  "init log_dir_arg max_workers_arg executor_arg train_options_arg stamp uuid4 cache w =
     (let self0 = \<lparr>executor = executor_arg None,
                   worker_list = [],
                   job_list = Map.empty,
                   log_dir = path_join (case log_dir_arg of Some d \<Rightarrow> d | None \<Rightarrow> ''./'') stamp,
                   prediction_log = [],
                   train_log = [],
                   train_options = Map.empty,
                   id_analyser = []\<rparr>;
          (self1, w1) = init_logs self0 w;
          self2 = self1\<lparr>train_options :=
                     (case train_options_arg of Some t \<Rightarrow> t | None \<Rightarrow> [''foo'' \<mapsto> PyInt 12])\<rparr>;
          self3 = self2\<lparr>id_analyser := uuid4\<rparr>
      in (self3, cache(uuid4 \<mapsto> self3), w1))"

section \<open>The unit of work\<close>

text \<open>
  The worker process that runs a unit of work: its copy of the module's
  \<open>analyser_cache\<close>, the \<open>uuid4\<close> it draws for the job, its clock (\<open>clock k\<close> is the
  reading of the \<open>k\<close>-th call of \<open>datetime.datetime.now()\<close> in the job; each of the two
  logging methods reads it once, and appends one record unless it raises), and
  \<open>NeuralNet.score_report\<close>.
\<close>

record worker =
  analyser_cache :: "string \<rightharpoonup> analyser"
  uuid4 :: string
  clock :: "nat \<Rightarrow> pyval"
  score_report :: "pyval \<Rightarrow> pyval \<Rightarrow> pyval \<Rightarrow> exn + score"

definition now_of :: "worker \<Rightarrow> analyser_job \<Rightarrow> pyval" where
  "now_of w job = clock w (length (train_data job) + length (prediction_data job))"

text \<open>The loop over \<open>test_sets.items()\<close>, given as the list of items \<open>(id, (x, y))\<close>.\<close>

fun predict_loop ::
  "worker \<Rightarrow> neuralnet \<Rightarrow> (pyval \<times> pyval \<times> pyval) list \<Rightarrow> analyser_job
     \<Rightarrow> exn option \<times> analyser_job" where
  "predict_loop w neuralnet [] job = (None, job)"
| "predict_loop w neuralnet ((test_set_id, test_set_x, test_set_y) # rest) job =
     (case predict neuralnet test_set_x of
        Inl e \<Rightarrow> (Some e, job)
      | Inr predicted \<Rightarrow>
         (case score_report w test_set_y predicted (labels_neuralnet neuralnet) of
            Inl e \<Rightarrow> (Some e, job)
          | Inr score \<Rightarrow>
             (case add_to_prediction_log job neuralnet (now_of w job) test_set_id score None of
                (Inl e, job1) \<Rightarrow> (Some e, job1)
              | (Inr data, job1) \<Rightarrow> predict_loop w neuralnet rest job1)))"

text \<open>
  \<open>_start_job\<close>. The job is registered in the worker's copy of the analyser
  (\<open>analyser.job_list[job.id] = job\<close> stores a reference, so the registry shows the job
  as the run left it): the first component of the result is the worker's cache after
  the run. The second is the return value, or the exception that left the function.
\<close>

definition start_job ::
  "worker \<Rightarrow> string \<Rightarrow> (pyval \<Rightarrow> pyval \<Rightarrow> row \<Rightarrow> exn + neuralnet) \<Rightarrow> pyval \<times> pyval
     \<Rightarrow> (pyval \<times> pyval \<times> pyval) list \<Rightarrow> row
     \<Rightarrow> (string \<rightharpoonup> analyser) \<times> (exn + row list \<times> row list)" where
  "start_job w analyser_id neuralnet_class train_set test_sets kvargs =
     (case analyser_cache w analyser_id of
        None \<Rightarrow> (analyser_cache w, Inl (KeyError analyser_id))
      | Some analyser \<Rightarrow>
         (let job = AnalyserJob (uuid4 w);
              registered = (\<lambda>j. (analyser_cache w)
                 (analyser_id \<mapsto> analyser\<lparr>job_list := (job_list analyser)(id_job j \<mapsto> j)\<rparr>));
              (train_x, train_y) = train_set
          in case neuralnet_class train_x train_y kvargs of
               Inl e \<Rightarrow> (registered job, Inl e)
             | Inr neuralnet \<Rightarrow>
                (case train neuralnet
                        (\<lambda>nn td j. snd (add_to_train_log j nn (now_of w j) td None))
                        (job\<lparr>status := ''training:started''\<rparr>) of
                   (Some e, job1) \<Rightarrow> (registered job1, Inl e)
                 | (None, job1) \<Rightarrow>
                    (case predict_loop w neuralnet test_sets
                            (job1\<lparr>status := ''prediction:started''\<rparr>) of
                       (Some e, job2) \<Rightarrow> (registered job2, Inl e)
                     | (None, job2) \<Rightarrow>
                        (let job3 = job2\<lparr>status := ''completed''\<rparr>
                         in (registered job3, Inr (train_data job3, prediction_data job3)))))))"

section \<open>Submitting and draining\<close>

text \<open>
  \<open>submit\<close>: the pool runs \<open>_start_job\<close> in the worker process \<open>w\<close>; the new future
  holds what that run returns or raises.
\<close>

definition submit ::
  "worker \<Rightarrow> analyser \<Rightarrow> (pyval \<Rightarrow> pyval \<Rightarrow> row \<Rightarrow> exn + neuralnet) \<Rightarrow> pyval \<times> pyval
     \<Rightarrow> (pyval \<times> pyval \<times> pyval) list \<Rightarrow> row \<Rightarrow> analyser" where
  "submit w self neuralnet_class train_set test_sets kvargs =
     (let (item, ex) = executor_submit (executor self)
            (snd (start_job w (id_analyser self) neuralnet_class train_set test_sets kvargs))
      in self\<lparr>executor := ex, worker_list := worker_list self @ [item]\<rparr>)"

text \<open>
  \<open>_as_completed\<close>: \<open>concurrent.futures.as_completed\<close> takes the set of the futures of
  \<open>worker_list\<close> when the loop starts and yields each of them once, in the order in
  which they finish. An order \<open>order\<close> is one it can yield when:
\<close>

definition as_completed :: "future list \<Rightarrow> future list \<Rightarrow> bool" where
  "as_completed fs order \<longleftrightarrow> distinct order \<and> set order = set fs"

text \<open>\<open>list.remove\<close>: the first equal element goes; \<open>ValueError\<close> when there is none.\<close>

definition list_remove :: "'a list \<Rightarrow> 'a \<Rightarrow> exn + 'a list" where
  "list_remove xs x = (if x \<in> set xs then Inr (remove1 x xs) else Inl ValueError)"

text \<open>
  The loop of \<open>start\<close> over the futures that \<open>_as_completed\<close> yields. The result is the
  exception that leaves \<open>start\<close>, if any, with the analyser and the world as they are
  then (the object is changed in place, so a caller sees it also after an exception).
  What \<open>future.result()\<close> raises is handled when it is an instance of \<open>Exception\<close>, and
  leaves \<open>start\<close> otherwise.
\<close>

fun start_loop ::
  "callback option \<Rightarrow> (string \<Rightarrow> exn option) \<Rightarrow> future list \<Rightarrow> analyser \<times> world
     \<Rightarrow> exn option \<times> analyser \<times> world" where
  "start_loop job_completed to_csv_raises [] (self, w) = (None, self, w)"
| "start_loop job_completed to_csv_raises (future # rest) (self, w) =
     (case result future of
        Inl exc \<Rightarrow>
          (if is_Exception exc then
             (let w1 = w\<lparr>stdout := stdout w @ [Text ''ERROR'', StrOf exc]\<rparr>
              in case list_remove (worker_list self) future of
                   Inl e \<Rightarrow> (Some e, self, w1)
                 | Inr wl \<Rightarrow>
                     start_loop job_completed to_csv_raises rest (self\<lparr>worker_list := wl\<rparr>, w1))
           else (Some exc, self, w))
      | Inr (train_data_res, prediction_data_res) \<Rightarrow>
          (let self1 = append_job_data self train_data_res prediction_data_res
           in case (case job_completed of
                      None \<Rightarrow> (None, self1, w)
                    | Some f \<Rightarrow> f (self1, w) (train_data_res, prediction_data_res)) of
                (Some e, self2, w2) \<Rightarrow> (Some e, self2, w2)
              | (None, self2, w2) \<Rightarrow>
                 (case save_logs to_csv_raises self2 w2 of
                    (Some e, w3) \<Rightarrow> (Some e, self2, w3)
                  | (None, w3) \<Rightarrow> start_loop job_completed to_csv_raises rest (self2, w3))))"

definition start ::
  "callback option \<Rightarrow> (string \<Rightarrow> exn option) \<Rightarrow> future list \<Rightarrow> analyser \<times> world
     \<Rightarrow> exn option \<times> analyser \<times> world" where
  "start job_completed to_csv_raises order st = start_loop job_completed to_csv_raises order st"

section \<open>Vocabulary of the properties\<close>

text \<open>What a finished future stands for: whether its unit of work returned, the rows it
  returned, and the lines \<open>start\<close> prints for it.\<close>

definition succeeded :: "future \<Rightarrow> bool" where
  "succeeded f \<longleftrightarrow> (case result f of Inr r \<Rightarrow> True | Inl e \<Rightarrow> False)"

definition train_rows :: "future \<Rightarrow> row list" where
  "train_rows f = (case result f of Inr (t, p) \<Rightarrow> t | Inl e \<Rightarrow> [])"

definition prediction_rows :: "future \<Rightarrow> row list" where
  "prediction_rows f = (case result f of Inr (t, p) \<Rightarrow> p | Inl e \<Rightarrow> [])"

definition report :: "future \<Rightarrow> line list" where
  "report f = (case result f of Inr r \<Rightarrow> [] | Inl exc \<Rightarrow> [Text ''ERROR'', StrOf exc])"

text \<open>A future is caught when its unit of work returned or raised an instance of
  \<open>Exception\<close>.\<close>

definition caught :: "future \<Rightarrow> bool" where
  "caught f \<longleftrightarrow> (case result f of Inr r \<Rightarrow> True | Inl exc \<Rightarrow> is_Exception exc)"

text \<open>
  A completion callback is quiet when it returns normally and leaves the worker list,
  the two aggregate logs and the printed output as they are; having no callback is
  quiet.
\<close>

definition quiet :: "callback option \<Rightarrow> bool" where
  "quiet job_completed \<longleftrightarrow>
     (case job_completed of
        None \<Rightarrow> True
      | Some f \<Rightarrow>
          (\<forall>self w r. case f (self, w) r of (e, self', w') \<Rightarrow>
             e = None \<and> worker_list self' = worker_list self
             \<and> prediction_log self' = prediction_log self \<and> train_log self' = train_log self
             \<and> stdout w' = stdout w))"

text \<open>A score report whose per-label arrays cover every label.\<close>

definition per_label_arrays :: "score \<Rightarrow> bool" where
  "per_label_arrays score \<longleftrightarrow>
     length (labels score) \<le> length (precision score)
     \<and> length (labels score) \<le> length (recall score)
     \<and> length (labels score) \<le> length (f1 score)
     \<and> length (labels score) \<le> length (support score)"

text \<open>
  The training record in the order in which the specification lists its sources: base
  identity columns, hyperparameters, iteration data, extra, later sources winning.
\<close>

definition spec_train_record :: "neuralnet \<Rightarrow> pyval \<Rightarrow> row \<Rightarrow> row option \<Rightarrow> row" where
  "spec_train_record neuralnet now iteration_data extra =
     [''timestamp'' \<mapsto> now,
      ''classifier'' \<mapsto> PyStr (class_name neuralnet),
      ''classifier_id'' \<mapsto> instance_id neuralnet]
     ++ get_hyperparameters neuralnet ++ iteration_data
     ++ (case extra of Some e \<Rightarrow> e | None \<Rightarrow> Map.empty)"

section \<open>Example inputs\<close>

text \<open>
  A classifier with three training iterations, a score report over two labels, two
  test sets, a fresh analyser and the worker process forked from it.
\<close>

definition net0 :: neuralnet where
  "net0 = \<lparr>class_name = ''NeuralNet'', instance_id = PyObj 7,
           get_hyperparameters = [''epoch'' \<mapsto> PyInt 9],
           labels_neuralnet = PyObj 0,
           train_iterations = [[''epoch'' \<mapsto> PyInt 1, ''cost'' \<mapsto> PyObj 3],
                               [''epoch'' \<mapsto> PyInt 2, ''cost'' \<mapsto> PyObj 2],
                               [''epoch'' \<mapsto> PyInt 3, ''cost'' \<mapsto> PyObj 1]],
           train_raises = None,
           predict = (\<lambda>x. Inr x)\<rparr>"

definition score0 :: score where
  "score0 = \<lparr>labels = [PyStr ''a'', PyStr ''b''],
             precision = [PyObj 1, PyObj 2], recall = [PyObj 3, PyObj 4],
             f1 = [PyObj 5, PyObj 6], support = [PyObj 7, PyObj 8],
             accuracy = PyObj 9, totals = (PyObj 10, PyObj 11, PyObj 12, PyObj 13)\<rparr>"

definition world0 :: world where
  "world0 = \<lparr>stdout = [], files = Map.empty, dirs = {}\<rparr>"

definition analyser0 :: analyser where
  "analyser0 =
     fst (init None (Some 4) ProcessPoolExecutor None ''2018-01-01'' ''A'' Map.empty world0)"

definition worker0 :: worker where
  "worker0 = \<lparr>analyser_cache = [''A'' \<mapsto> analyser0], uuid4 = ''J'', clock = PyDateTime,
              score_report = (\<lambda>y p l. Inr score0)\<rparr>"

definition tests0 :: "(pyval \<times> pyval \<times> pyval) list" where
  "tests0 = [(PyStr ''dev'', PyObj 3, PyObj 4), (PyStr ''test'', PyObj 5, PyObj 6)]"

text \<open>One job submitted, drained once, and drained a second time.\<close>

definition submitted0 :: analyser where
  "submitted0 =
     submit worker0 analyser0 (\<lambda>x y kv. Inr net0) (PyObj 1, PyObj 2) tests0 Map.empty"

definition drained0 :: "analyser \<times> world" where
  "drained0 = snd (start None (\<lambda>p. None) (worker_list submitted0) (submitted0, world0))"

definition drained_again0 :: "analyser \<times> world" where
  "drained_again0 = snd (start None (\<lambda>p. None) (worker_list (fst drained0)) drained0)"

text \<open>
  A classifier whose training raises after its three iterations, and its job submitted
  after the first one.
\<close>

definition net_failing0 :: neuralnet where
  "net_failing0 = net0\<lparr>train_raises := Some (Exception ''boom'')\<rparr>"

definition submitted_both0 :: analyser where
  "submitted_both0 =
     submit worker0 submitted0 (\<lambda>x y kv. Inr net_failing0) (PyObj 1, PyObj 2) tests0 Map.empty"

text \<open>
  A classifier with a hyperparameter named \<open>label\<close> and its job; two calls of
  \<open>add_to_prediction_log\<close> with an extra mapping, one with a \<open>label\<close> key and one with
  the job's own id under \<open>job_id\<close>.
\<close>

definition net_label0 :: neuralnet where
  "net_label0 = net0\<lparr>get_hyperparameters := [''label'' \<mapsto> PyStr ''mine'']\<rparr>"

definition job_label0 :: "exn + row list \<times> row list" where
  "job_label0 =
     snd (start_job worker0 ''A'' (\<lambda>x y kv. Inr net_label0) (PyObj 1, PyObj 2) tests0 Map.empty)"

definition relabelled0 :: "(exn + row) \<times> analyser_job" where
  "relabelled0 =
     add_to_prediction_log (AnalyserJob ''J'') net0 (PyDateTime 0) (PyStr ''dev'') score0
       (Some [''label'' \<mapsto> PyStr ''mine''])"

definition job_id_extra0 :: "(exn + row) \<times> analyser_job" where
  "job_id_extra0 =
     add_to_prediction_log (AnalyserJob ''J'') net0 (PyDateTime 0) (PyStr ''dev'') score0
       (Some [''job_id'' \<mapsto> PyStr ''J''])"

text \<open>Three finished futures, the first failed, in the worker list of an analyser.\<close>

definition failed0 :: future where
  "failed0 = \<lparr>fid = 0, result = Inl (Exception ''boom'')\<rparr>"

definition done1 :: future where
  "done1 = \<lparr>fid = 1, result = Inr ([[''cost'' \<mapsto> PyObj 1], [''cost'' \<mapsto> PyObj 2]],
                                  [[''label'' \<mapsto> PyStr ''__totals__'']])\<rparr>"

definition done2 :: future where
  "done2 = \<lparr>fid = 2, result = Inr ([[''cost'' \<mapsto> PyObj 3]],
                                  [[''label'' \<mapsto> PyStr ''__totals__''],
                                   [''label'' \<mapsto> PyStr ''__totals__'']])\<rparr>"

definition pending0 :: analyser where
  "pending0 = analyser0\<lparr>worker_list := [failed0, done1, done2]\<rparr>"

text \<open>The same with a first future whose unit of work called \<open>sys.exit(3)\<close>, and log
  writes that never raise.\<close>

definition exited0 :: future where
  "exited0 = \<lparr>fid = 0, result = Inl (SystemExit 3)\<rparr>"

definition pending_exit0 :: analyser where
  "pending_exit0 = analyser0\<lparr>worker_list := [exited0, done1, done2]\<rparr>"

definition no_write_error :: "string \<Rightarrow> exn option" where
  "no_write_error p = None"

definition exit_drain0 :: "exn option \<times> analyser \<times> world" where
  "exit_drain0 = start None no_write_error [done2, exited0, done1] (pending_exit0, world0)"

section \<open>The logging methods of a job\<close>

lemma label_rows_total:
  "(\<And>i. i \<in> set js \<Longrightarrow> \<exists>r. body i = Inr r) \<Longrightarrow>
     \<exists>rows. label_rows body js = Inr rows \<and> length rows = length js"
proof (induction js)
  case Nil
  then show ?case by simp
next
  case (Cons j js)
  obtain r where r: "body j = Inr r" using Cons.prems[of j] by auto
  obtain rows where rows: "label_rows body js = Inr rows" "length rows = length js"
    using Cons.IH Cons.prems by auto
  show ?case using r rows by simp
qed

lemma label_row_total:
  "per_label_arrays score \<Longrightarrow> i < length (labels score) \<Longrightarrow>
     \<exists>r. label_row neuralnet now test_set_id score hp ex i = Inr r"
  by (simp add: label_row_def getitem_def per_label_arrays_def)

lemma per_label_rows_computed:
  assumes "per_label_arrays score"
  shows "\<exists>rows. label_rows (label_row neuralnet now test_set_id score hp ex)
                   [0 ..< length (labels score)] = Inr rows
               \<and> length rows = length (labels score)"
  using label_rows_total[of "[0 ..< length (labels score)]"
          "label_row neuralnet now test_set_id score hp ex"]
        label_row_total[OF assms]
  by auto

lemma add_to_prediction_log_returns:
  assumes "add_to_prediction_log self neuralnet now test_set_id score extra = (Inr data, self')"
  shows "data = totals_cols neuralnet now test_set_id score ++ get_hyperparameters neuralnet
                  ++ (case extra of Some e \<Rightarrow> e | None \<Rightarrow> Map.empty)"
    and "self' = self\<lparr>prediction_data := prediction_data self @ [data]\<rparr>"
  using assms by (auto simp: add_to_prediction_log_def Let_def split: sum.splits)

lemma merged_lookup:
  "(base ++ hp ++ ex) k =
     (case ex k of Some v \<Rightarrow> Some v
      | None \<Rightarrow> (case hp k of Some v \<Rightarrow> Some v | None \<Rightarrow> base k))"
  by (simp add: map_add_def split: option.splits)

lemma merged_present:
  "base k \<noteq> None \<Longrightarrow> (base ++ hp ++ ex) k \<noteq> None"
  by (auto simp: map_add_def split: option.splits)

lemma totals_cols_values:
  "totals_cols neuralnet now test_set_id score ''label'' = Some (PyStr ''__totals__'')"
  "totals_cols neuralnet now test_set_id score ''job_id'' = Some (PyInt 1)"
  "totals_cols neuralnet now test_set_id score ''accuracy'' = Some (accuracy score)"
  "totals_cols neuralnet now test_set_id score ''precision'' = Some (fst (totals score))"
  "totals_cols neuralnet now test_set_id score ''recall'' = Some (fst (snd (totals score)))"
  "totals_cols neuralnet now test_set_id score ''f1'' = Some (fst (snd (snd (totals score))))"
  "totals_cols neuralnet now test_set_id score ''support'' = Some (snd (snd (snd (totals score))))"
  by (simp_all add: totals_cols_def split: prod.splits)

lemma label_rows_nth:
  "label_rows body js = Inr rows \<Longrightarrow>
     length rows = length js \<and> (\<forall>k < length js. body (js ! k) = Inr (rows ! k))"
proof (induction js arbitrary: rows)
  case Nil
  then show ?case by simp
next
  case (Cons j js)
  from Cons.prems obtain r rs where r: "body j = Inr r" and rs: "label_rows body js = Inr rs"
    and rows: "rows = r # rs"
    by (auto split: sum.splits)
  from Cons.IH[OF rs] show ?case using r rows by (auto simp: nth_Cons split: nat.splits)
qed

lemma per_label_arrays_score0: "per_label_arrays score0"
  by (simp add: per_label_arrays_def score0_def)

text \<open>
  Claim C5, as stated, at a concrete input: an iteration record and a hyperparameter
  mapping that both have the key \<open>epoch\<close>. The record of \<open>add_to_train_log\<close> carries
  the hyperparameter (9); the merge in the order the claim lists carries the iteration
  value (1).
\<close>

theorem train_record_spec_order_counterexample:
  "fst (add_to_train_log (AnalyserJob ''J'') net0 (PyDateTime 0)
          [''epoch'' \<mapsto> PyInt 1, ''cost'' \<mapsto> PyObj 3] None) ''epoch'' = Some (PyInt 9)
   \<and> spec_train_record net0 (PyDateTime 0)
          [''epoch'' \<mapsto> PyInt 1, ''cost'' \<mapsto> PyObj 3] None ''epoch'' = Some (PyInt 1)
   \<and> fst (add_to_train_log (AnalyserJob ''J'') net0 (PyDateTime 0)
          [''epoch'' \<mapsto> PyInt 1, ''cost'' \<mapsto> PyObj 3] None)
       \<noteq> spec_train_record net0 (PyDateTime 0)
          [''epoch'' \<mapsto> PyInt 1, ''cost'' \<mapsto> PyObj 3] None"
proof -
  have a: "fst (add_to_train_log (AnalyserJob ''J'') net0 (PyDateTime 0)
          [''epoch'' \<mapsto> PyInt 1, ''cost'' \<mapsto> PyObj 3] None) ''epoch'' = Some (PyInt 9)"
    by (simp add: add_to_train_log_def net0_def Let_def map_add_def)
  have b: "spec_train_record net0 (PyDateTime 0)
          [''epoch'' \<mapsto> PyInt 1, ''cost'' \<mapsto> PyObj 3] None ''epoch'' = Some (PyInt 1)"
    by (simp add: spec_train_record_def net0_def map_add_def)
  from a b show ?thesis by auto
qed

text \<open>
  Claim C5, amended: the record that \<open>add_to_train_log\<close> appends and returns is the
  merge of the base identity columns, the raw iteration data, the classifier's
  hyperparameters and the optional extra mapping, in this order: on a key collision
  extra wins over the hyperparameters, the hyperparameters over the iteration data, the
  iteration data over the base columns. The record is appended at the end of the
  training sequence; the prediction sequence is untouched.
\<close>

theorem add_to_train_log_precedence:
  "fst (add_to_train_log self neuralnet now iteration_data extra) k =
     (case (case extra of Some e \<Rightarrow> e | None \<Rightarrow> Map.empty) k of
        Some v \<Rightarrow> Some v
      | None \<Rightarrow>
         (case get_hyperparameters neuralnet k of
            Some v \<Rightarrow> Some v
          | None \<Rightarrow>
             (case iteration_data k of
                Some v \<Rightarrow> Some v
              | None \<Rightarrow> [''timestamp'' \<mapsto> now,
                         ''classifier'' \<mapsto> PyStr (class_name neuralnet),
                         ''classifier_id'' \<mapsto> instance_id neuralnet] k)))
   \<and> train_data (snd (add_to_train_log self neuralnet now iteration_data extra))
       = train_data self @ [fst (add_to_train_log self neuralnet now iteration_data extra)]
   \<and> prediction_data (snd (add_to_train_log self neuralnet now iteration_data extra))
       = prediction_data self"
  by (simp add: add_to_train_log_def Let_def map_add_def split: option.splits)

text \<open>
  Claim C4, as stated, at a call with the extra mapping \<open>{'label': 'mine'}\<close>: one
  record is appended and returned, and its label is \<open>mine\<close>, not \<open>__totals__\<close> (the
  extra mapping is merged over the base columns).
\<close>

theorem totals_row_label_counterexample:
  "\<not> isl (fst relabelled0)
   \<and> projr (fst relabelled0) ''label'' = Some (PyStr ''mine'')
   \<and> projr (fst relabelled0) ''label'' \<noteq> Some (PyStr ''__totals__'')
   \<and> length (prediction_data (snd relabelled0)) = 1
   \<and> last (prediction_data (snd relabelled0)) ''label'' = Some (PyStr ''mine'')"
proof -
  obtain rows where rows:
    "label_rows (label_row net0 (PyDateTime 0) (PyStr ''dev'') score0 (get_hyperparameters net0)
       [''label'' \<mapsto> PyStr ''mine'']) [0 ..< length (labels score0)] = Inr rows"
    using per_label_rows_computed[OF per_label_arrays_score0] by blast
  show ?thesis
    using rows by (simp add: relabelled0_def add_to_prediction_log_def Let_def AnalyserJob_def)
qed

text \<open>
  Claim C4, amended: for a score report whose per-label arrays cover its labels,
  \<open>add_to_prediction_log\<close> appends exactly one record to the job's prediction
  sequence and returns it. The record is the totals row, that is the base columns with
  label \<open>__totals__\<close>, the aggregate precision, recall, f1 and support and the scalar
  accuracy, overlaid with the hyperparameters and then with the extra mapping: a
  column has the totals value unless one of the two has its key. The rows of the
  labels are computed, one per label with that label's values, and not appended.
\<close>

theorem add_to_prediction_log_appends_totals_row:
  assumes "per_label_arrays score"
  shows "\<exists>data per_label.
           add_to_prediction_log self neuralnet now test_set_id score extra
             = (Inr data, self\<lparr>prediction_data := prediction_data self @ [data]\<rparr>)
           \<and> data = [''timestamp'' \<mapsto> now,
                     ''classifier'' \<mapsto> PyStr (class_name neuralnet),
                     ''classifier_id'' \<mapsto> instance_id neuralnet,
                     ''test_set'' \<mapsto> test_set_id,
                     ''precision'' \<mapsto> fst (totals score),
                     ''recall'' \<mapsto> fst (snd (totals score)),
                     ''accuracy'' \<mapsto> accuracy score,
                     ''f1'' \<mapsto> fst (snd (snd (totals score))),
                     ''support'' \<mapsto> snd (snd (snd (totals score))),
                     ''label'' \<mapsto> PyStr ''__totals__'',
                     ''job_id'' \<mapsto> PyInt 1]
                    ++ get_hyperparameters neuralnet
                    ++ (case extra of Some e \<Rightarrow> e | None \<Rightarrow> Map.empty)
           \<and> label_rows (label_row neuralnet now test_set_id score (get_hyperparameters neuralnet)
                 (case extra of Some e \<Rightarrow> e | None \<Rightarrow> Map.empty))
                 [0 ..< length (labels score)] = Inr per_label
           \<and> length per_label = length (labels score)
           \<and> (\<forall>i < length (labels score).
                 per_label ! i =
                   [''timestamp'' \<mapsto> now,
                    ''classifier'' \<mapsto> PyStr (class_name neuralnet),
                    ''classifier_id'' \<mapsto> instance_id neuralnet,
                    ''test_set'' \<mapsto> test_set_id,
                    ''precision'' \<mapsto> precision score ! i,
                    ''recall'' \<mapsto> recall score ! i,
                    ''accuracy'' \<mapsto> accuracy score,
                    ''f1'' \<mapsto> f1 score ! i,
                    ''label'' \<mapsto> labels score ! i,
                    ''support'' \<mapsto> support score ! i,
                    ''job_id'' \<mapsto> PyInt 1]
                   ++ get_hyperparameters neuralnet
                   ++ (case extra of Some e \<Rightarrow> e | None \<Rightarrow> Map.empty))"
proof -
  let ?ex = "case extra of Some e \<Rightarrow> e | None \<Rightarrow> Map.empty"
  let ?hp = "get_hyperparameters neuralnet"
  let ?data = "totals_cols neuralnet now test_set_id score ++ ?hp ++ ?ex"
  let ?n = "length (labels score)"
  obtain rows where rows:
    "label_rows (label_row neuralnet now test_set_id score ?hp ?ex) [0 ..< ?n] = Inr rows"
    "length rows = ?n"
    using per_label_rows_computed[OF assms] by blast
  have call: "add_to_prediction_log self neuralnet now test_set_id score extra
             = (Inr ?data, self\<lparr>prediction_data := prediction_data self @ [?data]\<rparr>)"
    using rows(1) by (simp add: add_to_prediction_log_def Let_def)
  have tot: "totals_cols neuralnet now test_set_id score =
               [''timestamp'' \<mapsto> now,
                ''classifier'' \<mapsto> PyStr (class_name neuralnet),
                ''classifier_id'' \<mapsto> instance_id neuralnet,
                ''test_set'' \<mapsto> test_set_id,
                ''precision'' \<mapsto> fst (totals score),
                ''recall'' \<mapsto> fst (snd (totals score)),
                ''accuracy'' \<mapsto> accuracy score,
                ''f1'' \<mapsto> fst (snd (snd (totals score))),
                ''support'' \<mapsto> snd (snd (snd (totals score))),
                ''label'' \<mapsto> PyStr ''__totals__'',
                ''job_id'' \<mapsto> PyInt 1]"
    by (simp add: totals_cols_def split: prod.splits)
  have nth: "rows ! i =
                   [''timestamp'' \<mapsto> now,
                    ''classifier'' \<mapsto> PyStr (class_name neuralnet),
                    ''classifier_id'' \<mapsto> instance_id neuralnet,
                    ''test_set'' \<mapsto> test_set_id,
                    ''precision'' \<mapsto> precision score ! i,
                    ''recall'' \<mapsto> recall score ! i,
                    ''accuracy'' \<mapsto> accuracy score,
                    ''f1'' \<mapsto> f1 score ! i,
                    ''label'' \<mapsto> labels score ! i,
                    ''support'' \<mapsto> support score ! i,
                    ''job_id'' \<mapsto> PyInt 1] ++ ?hp ++ ?ex"
    if i: "i < ?n" for i
  proof -
    from label_rows_nth[OF rows(1)] i
    have "label_row neuralnet now test_set_id score ?hp ?ex i = Inr (rows ! i)" by simp
    then show ?thesis
      using assms i by (simp add: label_row_def getitem_def per_label_arrays_def)
  qed
  show ?thesis
    apply (rule exI[of _ ?data])
    apply (rule exI[of _ rows])
    using call rows nth unfolding tot by blast
qed

text \<open>
  The amended claim C4 at the example score report (two labels) and no extra mapping:
  one record is appended to a fresh job, labelled \<open>__totals__\<close>, with the aggregate
  precision of the report; two label rows were computed, the first for label \<open>a\<close>.
\<close>

theorem add_to_prediction_log_appends_totals_row_witness:
  "per_label_arrays score0
   \<and> (\<exists>data per_label.
         add_to_prediction_log (AnalyserJob ''J'') net0 (PyDateTime 0) (PyStr ''dev'') score0 None
          = (Inr data, (AnalyserJob ''J'')\<lparr>prediction_data := [data]\<rparr>)
        \<and> data ''label'' = Some (PyStr ''__totals__'')
        \<and> data ''precision'' = Some (PyObj 10)
        \<and> data ''accuracy'' = Some (PyObj 9)
        \<and> length per_label = 2
        \<and> (per_label ! 0) ''label'' = Some (PyStr ''a'')
        \<and> (per_label ! 0) ''precision'' = Some (PyObj 1))"
proof -
  from add_to_prediction_log_appends_totals_row[OF per_label_arrays_score0,
         where self = "AnalyserJob ''J''" and now = "PyDateTime 0"
           and test_set_id = "PyStr ''dev''" and neuralnet = net0 and extra = None]
  obtain data per_label where
    d: "add_to_prediction_log (AnalyserJob ''J'') net0 (PyDateTime 0) (PyStr ''dev'') score0 None
          = (Inr data, (AnalyserJob ''J'')\<lparr>prediction_data :=
                prediction_data (AnalyserJob ''J'') @ [data]\<rparr>)"
    and dv: "data = [''timestamp'' \<mapsto> PyDateTime 0,
                     ''classifier'' \<mapsto> PyStr (class_name net0),
                     ''classifier_id'' \<mapsto> instance_id net0,
                     ''test_set'' \<mapsto> PyStr ''dev'',
                     ''precision'' \<mapsto> fst (totals score0),
                     ''recall'' \<mapsto> fst (snd (totals score0)),
                     ''accuracy'' \<mapsto> accuracy score0,
                     ''f1'' \<mapsto> fst (snd (snd (totals score0))),
                     ''support'' \<mapsto> snd (snd (snd (totals score0))),
                     ''label'' \<mapsto> PyStr ''__totals__'',
                     ''job_id'' \<mapsto> PyInt 1]
                    ++ get_hyperparameters net0 ++ Map.empty"
    and len: "length per_label = length (labels score0)"
    and nth: "\<forall>i < length (labels score0).
                 per_label ! i =
                   [''timestamp'' \<mapsto> PyDateTime 0,
                    ''classifier'' \<mapsto> PyStr (class_name net0),
                    ''classifier_id'' \<mapsto> instance_id net0,
                    ''test_set'' \<mapsto> PyStr ''dev'',
                    ''precision'' \<mapsto> precision score0 ! i,
                    ''recall'' \<mapsto> recall score0 ! i,
                    ''accuracy'' \<mapsto> accuracy score0,
                    ''f1'' \<mapsto> f1 score0 ! i,
                    ''label'' \<mapsto> labels score0 ! i,
                    ''support'' \<mapsto> support score0 ! i,
                    ''job_id'' \<mapsto> PyInt 1]
                   ++ get_hyperparameters net0 ++ Map.empty"
    by auto
  have zero: "0 < length (labels score0)" by (simp add: score0_def)
  note row0 = nth[rule_format, OF zero]
  have a: "add_to_prediction_log (AnalyserJob ''J'') net0 (PyDateTime 0) (PyStr ''dev'') score0 None
          = (Inr data, (AnalyserJob ''J'')\<lparr>prediction_data := [data]\<rparr>)"
    using d by (simp add: AnalyserJob_def)
  have b: "data ''label'' = Some (PyStr ''__totals__'')" "data ''precision'' = Some (PyObj 10)"
    "data ''accuracy'' = Some (PyObj 9)"
    unfolding dv by (simp_all add: net0_def score0_def map_add_def)
  have c: "length per_label = 2" "(per_label ! 0) ''label'' = Some (PyStr ''a'')"
    "(per_label ! 0) ''precision'' = Some (PyObj 1)"
    using len unfolding row0 by (simp_all add: net0_def score0_def map_add_def)
  show ?thesis using per_label_arrays_score0 a b c by blast
qed

text \<open>
  Claim C10, as stated, at a call with the extra mapping \<open>{'job_id': 'J'}\<close> on the job
  whose id is \<open>J\<close>: the record appended has the job's id in its \<open>job_id\<close> field, not
  the constant 1.
\<close>

theorem job_id_not_constant_counterexample:
  "\<not> isl (fst job_id_extra0)
   \<and> length (prediction_data (snd job_id_extra0)) = 1
   \<and> last (prediction_data (snd job_id_extra0)) ''job_id''
       = Some (PyStr (id_job (AnalyserJob ''J'')))
   \<and> last (prediction_data (snd job_id_extra0)) ''job_id'' \<noteq> Some (PyInt 1)"
proof -
  obtain rows where rows:
    "label_rows (label_row net0 (PyDateTime 0) (PyStr ''dev'') score0 (get_hyperparameters net0)
       [''job_id'' \<mapsto> PyStr ''J'']) [0 ..< length (labels score0)] = Inr rows"
    using per_label_rows_computed[OF per_label_arrays_score0] by blast
  show ?thesis
    using rows by (simp add: job_id_extra0_def add_to_prediction_log_def Let_def AnalyserJob_def)
qed

text \<open>
  Claim C10, amended: a call of \<open>add_to_prediction_log\<close> either raises and appends
  nothing, or appends one record, whose \<open>job_id\<close> field is the value the extra mapping
  gives that key, else the value the hyperparameters give it, else the constant 1. The
  method never reads the job's generated id: the same call on a job with any other id
  gives the same record, so the field tells jobs apart only if the caller or the
  classifier supplies it.
\<close>

theorem prediction_record_job_id:
  "case add_to_prediction_log self neuralnet now test_set_id score extra of
     (Inl e, self') \<Rightarrow> prediction_data self' = prediction_data self
   | (Inr data, self') \<Rightarrow>
       prediction_data self' = prediction_data self @ [data]
       \<and> data ''job_id'' =
           (case (case extra of Some e \<Rightarrow> e | None \<Rightarrow> Map.empty) ''job_id'' of
              Some v \<Rightarrow> Some v
            | None \<Rightarrow> (case get_hyperparameters neuralnet ''job_id'' of
                         Some v \<Rightarrow> Some v
                       | None \<Rightarrow> Some (PyInt 1)))
       \<and> fst (add_to_prediction_log (self\<lparr>id_job := other\<rparr>) neuralnet now test_set_id
                score extra) = Inr data"
proof (cases "add_to_prediction_log self neuralnet now test_set_id score extra")
  case (Pair res self')
  show ?thesis
  proof (cases res)
    case (Inl e)
    then show ?thesis using Pair
      by (auto simp: add_to_prediction_log_def Let_def split: sum.splits)
  next
    case (Inr data)
    note r = add_to_prediction_log_returns[OF Pair[unfolded Inr]]
    have j: "data ''job_id'' =
           (case (case extra of Some e \<Rightarrow> e | None \<Rightarrow> Map.empty) ''job_id'' of
              Some v \<Rightarrow> Some v
            | None \<Rightarrow> (case get_hyperparameters neuralnet ''job_id'' of
                         Some v \<Rightarrow> Some v
                       | None \<Rightarrow> Some (PyInt 1)))"
      unfolding r(1) merged_lookup totals_cols_values(2) by (rule refl)
    have o: "fst (add_to_prediction_log (self\<lparr>id_job := other\<rparr>) neuralnet now test_set_id
                    score extra) = Inr data"
      using Pair Inr by (auto simp: add_to_prediction_log_def Let_def split: sum.splits)
    show ?thesis using Pair Inr j o r(2) by simp
  qed
qed

section \<open>The unit of work of a job\<close>

lemma train_fold:
  "length (train_data (fold (\<lambda>td j. snd (add_to_train_log j nn (now_of w j) td None)) its job))
     = length (train_data job) + length its
   \<and> prediction_data (fold (\<lambda>td j. snd (add_to_train_log j nn (now_of w j) td None)) its job)
     = prediction_data job
   \<and> status (fold (\<lambda>td j. snd (add_to_train_log j nn (now_of w j) td None)) its job) = status job
   \<and> id_job (fold (\<lambda>td j. snd (add_to_train_log j nn (now_of w j) td None)) its job) = id_job job"
  by (induction its arbitrary: job) (simp_all add: add_to_train_log_def Let_def)

lemma predict_loop_records:
  "predict_loop w nn tss job = (None, job') \<Longrightarrow>
     \<exists>ps. prediction_data job' = prediction_data job @ ps \<and> length ps = length tss
       \<and> (\<forall>r \<in> set ps. r ''job_id'' \<noteq> None
             \<and> r ''label'' = (case get_hyperparameters nn ''label'' of
                                Some v \<Rightarrow> Some v
                              | None \<Rightarrow> Some (PyStr ''__totals__'')))
       \<and> train_data job' = train_data job \<and> status job' = status job \<and> id_job job' = id_job job"
proof (induction tss arbitrary: job)
  case Nil
  then show ?case by simp
next
  case (Cons ts tss)
  obtain tid tx ty where ts: "ts = (tid, tx, ty)" by (cases ts)
  from Cons.prems ts obtain predicted sc data job1 where
    call: "add_to_prediction_log job nn (now_of w job) tid sc None = (Inr data, job1)"
    and rest: "predict_loop w nn tss job1 = (None, job')"
    by (auto split: sum.splits prod.splits)
  note r = add_to_prediction_log_returns[OF call]
  have d1: "data ''job_id'' \<noteq> None"
    unfolding r(1) by (rule merged_present) (simp add: totals_cols_values)
  have d2: "data ''label'' = (case get_hyperparameters nn ''label'' of
                                Some v \<Rightarrow> Some v
                              | None \<Rightarrow> Some (PyStr ''__totals__''))"
    unfolding r(1) merged_lookup totals_cols_values(1) by simp
  from Cons.IH[OF rest] obtain ps where ps:
    "prediction_data job' = prediction_data job1 @ ps" "length ps = length tss"
    "\<forall>r \<in> set ps. r ''job_id'' \<noteq> None
             \<and> r ''label'' = (case get_hyperparameters nn ''label'' of
                                Some v \<Rightarrow> Some v
                              | None \<Rightarrow> Some (PyStr ''__totals__''))"
    "train_data job' = train_data job1" "status job' = status job1" "id_job job' = id_job job1"
    by blast
  show ?case
    apply (rule exI[of _ "data # ps"])
    using ps d1 d2 r(2) by simp
qed

lemma analyser0_simps:
  "id_analyser analyser0 = ''A''" "worker_list analyser0 = []" "prediction_log analyser0 = []"
  "train_log analyser0 = []" "executor analyser0 = \<lparr>max_workers = None, submitted = 0\<rparr>"
  by (simp_all add: analyser0_def init_def init_logs_def Let_def ProcessPoolExecutor_def world0_def)

lemma job0_returns:
  "\<exists>cache' t1 t2 t3 p1 p2.
     start_job worker0 ''A'' (\<lambda>x y kv. Inr net0) (PyObj 1, PyObj 2) tests0 Map.empty
       = (cache', Inr ([t1, t2, t3], [p1, p2]))"
  by (simp add: start_job_def worker0_def AnalyserJob_def train_def net0_def tests0_def
       add_to_train_log_def add_to_prediction_log_def Let_def score0_def label_row_def
       getitem_def upt_rec)

text \<open>
  Claim C6, as stated, at a successful job whose classifier has the hyperparameter
  \<open>label = mine\<close>: the unit of work returns two prediction rows for the two test sets,
  and the label of both is \<open>mine\<close>, not \<open>__totals__\<close>.
\<close>

theorem job_rows_label_counterexample:
  "\<not> isl job_label0
   \<and> length (snd (projr job_label0)) = 2
   \<and> (snd (projr job_label0) ! 0) ''label'' = Some (PyStr ''mine'')
   \<and> (snd (projr job_label0) ! 1) ''label'' = Some (PyStr ''mine'')"
  by (simp add: job_label0_def net_label0_def start_job_def worker0_def AnalyserJob_def
       train_def net0_def tests0_def add_to_train_log_def add_to_prediction_log_def Let_def
       score0_def label_row_def getitem_def upt_rec)

text \<open>
  Claim C6, amended: when the unit of work \<open>_start_job\<close> returns, for the classifier
  \<open>nn\<close> it constructed and the test sets it was given: the prediction sequence it
  returns has one record per test set, each with a \<open>job_id\<close> key and with the label
  \<open>__totals__\<close> unless the classifier's hyperparameters have a \<open>label\<close> key, whose
  value the record then carries; the training sequence has one record per training
  iteration, so at least that many; and the job registered in the worker holds these
  two sequences and has the status \<open>completed\<close>.
\<close>

theorem start_job_success_records:
  assumes "start_job wk aid neuralnet_class train_set test_sets kvargs = (cache', Inr (td, pd))"
    and "neuralnet_class (fst train_set) (snd train_set) kvargs = Inr nn"
  shows "length pd = length test_sets
         \<and> (\<forall>r \<in> set pd. r ''job_id'' \<noteq> None
               \<and> r ''label'' = (case get_hyperparameters nn ''label'' of
                                  Some v \<Rightarrow> Some v
                                | None \<Rightarrow> Some (PyStr ''__totals__'')))
         \<and> length td \<ge> length (train_iterations nn)
         \<and> length td = length (train_iterations nn)
         \<and> (\<exists>a job. cache' aid = Some a \<and> job_list a (uuid4 wk) = Some job
               \<and> status job = ''completed'' \<and> train_data job = td \<and> prediction_data job = pd)"
proof -
  obtain tx ty where ts: "train_set = (tx, ty)" by (cases train_set)
  have nc: "neuralnet_class tx ty kvargs = Inr nn" using assms(2) ts by simp
  from assms(1) obtain a where a: "analyser_cache wk aid = Some a"
    by (auto simp: start_job_def split: option.splits)
  let ?job0 = "(AnalyserJob (uuid4 wk))\<lparr>status := ''training:started''\<rparr>"
  let ?job1 = "fold (\<lambda>td j. snd (add_to_train_log j nn (now_of wk j) td None))
                 (train_iterations nn) ?job0"
  obtain e2 job2 where pl:
    "predict_loop wk nn test_sets (?job1\<lparr>status := ''prediction:started''\<rparr>) = (e2, job2)"
    by (cases "predict_loop wk nn test_sets (?job1\<lparr>status := ''prediction:started''\<rparr>)")
  from assms(1) a nc ts pl have tr: "train_raises nn = None" and e2: "e2 = None"
    by (auto simp: start_job_def train_def Let_def split: option.splits)
  from assms(1) a nc ts pl tr e2
  have res: "td = train_data job2" "pd = prediction_data job2"
    "cache' = (analyser_cache wk)(aid \<mapsto> a\<lparr>job_list := (job_list a)(id_job job2 \<mapsto>
                  job2\<lparr>status := ''completed''\<rparr>)\<rparr>)"
    by (auto simp: start_job_def train_def Let_def)
  note tf = train_fold[of nn wk "train_iterations nn" ?job0]
  from predict_loop_records[OF pl[unfolded e2]] obtain ps where ps:
    "prediction_data job2 = prediction_data (?job1\<lparr>status := ''prediction:started''\<rparr>) @ ps"
    "length ps = length test_sets"
    "\<forall>r \<in> set ps. r ''job_id'' \<noteq> None
             \<and> r ''label'' = (case get_hyperparameters nn ''label'' of
                                Some v \<Rightarrow> Some v
                              | None \<Rightarrow> Some (PyStr ''__totals__''))"
    "train_data job2 = train_data (?job1\<lparr>status := ''prediction:started''\<rparr>)"
    "id_job job2 = id_job (?job1\<lparr>status := ''prediction:started''\<rparr>)"
    by blast
  have pd: "pd = ps" using res(2) ps(1) tf by (simp add: AnalyserJob_def)
  have tdl: "length td = length (train_iterations nn)"
    using res(1) ps(4) tf by (simp add: AnalyserJob_def)
  have idj: "id_job job2 = uuid4 wk" using ps(5) tf by (simp add: AnalyserJob_def)
  have reg: "\<exists>a job. cache' aid = Some a \<and> job_list a (uuid4 wk) = Some job
               \<and> status job = ''completed'' \<and> train_data job = td \<and> prediction_data job = pd"
    unfolding res(3) idj using res(1,2) by simp
  show ?thesis using pd ps(2,3) tdl reg by simp
qed

text \<open>
  The amended claim C6 at the scenario of the specification: one job, three training
  iterations, two test sets, a classifier without a \<open>label\<close> hyperparameter. The unit
  of work returns three training rows and two prediction rows, each with
  \<open>label = __totals__\<close> and a \<open>job_id\<close>, and the job's status ends \<open>completed\<close>.
\<close>

theorem start_job_success_records_witness:
  "\<exists>cache' td pd.
     start_job worker0 ''A'' (\<lambda>x y kv. Inr net0) (PyObj 1, PyObj 2) tests0 Map.empty
       = (cache', Inr (td, pd))
     \<and> length pd = 2
     \<and> list_all (\<lambda>r. r ''job_id'' \<noteq> None \<and> r ''label'' = Some (PyStr ''__totals__'')) pd
     \<and> length td = 3
     \<and> (\<exists>a job. cache' ''A'' = Some a \<and> job_list a ''J'' = Some job
           \<and> status job = ''completed'' \<and> train_data job = td \<and> prediction_data job = pd)"
proof -
  obtain cache' td pd where run:
    "start_job worker0 ''A'' (\<lambda>x y kv. Inr net0) (PyObj 1, PyObj 2) tests0 Map.empty
       = (cache', Inr (td, pd))"
    using job0_returns by blast
  have nc: "(\<lambda>x y kv. Inr net0) (fst (PyObj 1, PyObj 2)) (snd (PyObj 1, PyObj 2)) Map.empty
              = (Inr net0 :: exn + neuralnet)"
    by simp
  have nolabel: "get_hyperparameters net0 ''label'' = None" by (simp add: net0_def)
  from start_job_success_records[OF run nc]
  have "length pd = 2
     \<and> list_all (\<lambda>r. r ''job_id'' \<noteq> None \<and> r ''label'' = Some (PyStr ''__totals__'')) pd
     \<and> length td = 3
     \<and> (\<exists>a job. cache' ''A'' = Some a \<and> job_list a ''J'' = Some job
           \<and> status job = ''completed'' \<and> train_data job = td \<and> prediction_data job = pd)"
    unfolding nolabel by (simp add: list_all_iff tests0_def net0_def worker0_def)
  with run show ?thesis by blast
qed

section \<open>The analyser: construction, submission, draining\<close>

text \<open>
  Claim C9: whatever \<open>max_workers\<close> the constructor is given, the pool is created by
  \<open>executor(max_workers=None)\<close>: the analyser built is the same as for
  \<open>max_workers=None\<close>, and with the default executor class the pool has no bound of
  its own.
\<close>

theorem init_ignores_max_workers:
  "executor (fst (init log_dir_arg max_workers_arg executor_arg train_options_arg stamp uuid cache w))
     = executor_arg None
   \<and> max_workers (executor (fst (init log_dir_arg max_workers_arg ProcessPoolExecutor
         train_options_arg stamp uuid cache w))) = None
   \<and> init log_dir_arg max_workers_arg executor_arg train_options_arg stamp uuid cache w
     = init log_dir_arg None executor_arg train_options_arg stamp uuid cache w"
  by (simp add: init_def init_logs_def ProcessPoolExecutor_def Let_def)

lemma submit_simps:
  "id_analyser (submit wk self nc ts tss kv) = id_analyser self"
  "worker_list (submit wk self nc ts tss kv) =
     worker_list self @ [\<lparr>fid = submitted (executor self),
                          result = snd (start_job wk (id_analyser self) nc ts tss kv)\<rparr>]"
  "submitted (executor (submit wk self nc ts tss kv)) = Suc (submitted (executor self))"
  "train_log (submit wk self nc ts tss kv) = train_log self"
  "prediction_log (submit wk self nc ts tss kv) = prediction_log self"
  by (simp_all add: submit_def executor_submit_def Let_def)

text \<open>The futures of the worker list stay pairwise different under \<open>submit\<close>.\<close>

lemma submit_keeps_distinct:
  assumes "distinct (worker_list self)"
    and "\<forall>f \<in> set (worker_list self). fid f < submitted (executor self)"
  shows "distinct (worker_list (submit wk self nc ts tss kv))
         \<and> (\<forall>f \<in> set (worker_list (submit wk self nc ts tss kv)).
               fid f < submitted (executor (submit wk self nc ts tss kv)))"
  using assms by (auto simp: submit_simps less_Suc_eq)

lemma append_job_data_prediction_log:
  "prediction_log (append_job_data self t p) = prediction_log self @ p"
proof -
  have a: "\<And>s. prediction_log (fold (\<lambda>item s. s\<lparr>prediction_log := prediction_log s @ [item]\<rparr>) p s)
      = prediction_log s @ p"
    by (induction p) auto
  have b: "\<And>s. prediction_log (fold (\<lambda>item s. s\<lparr>train_log := train_log s @ [item]\<rparr>) t s)
      = prediction_log s"
    by (induction t) auto
  show ?thesis by (simp add: append_job_data_def a b)
qed

lemma append_job_data_train_log:
  "train_log (append_job_data self t p) = train_log self @ t"
proof -
  have a: "\<And>s. train_log (fold (\<lambda>item s. s\<lparr>prediction_log := prediction_log s @ [item]\<rparr>) p s)
      = train_log s"
    by (induction p) auto
  have b: "\<And>s. train_log (fold (\<lambda>item s. s\<lparr>train_log := train_log s @ [item]\<rparr>) t s)
      = train_log s @ t"
    by (induction t) auto
  show ?thesis by (simp add: append_job_data_def a b)
qed

lemma append_job_data_worker_list:
  "worker_list (append_job_data self t p) = worker_list self"
proof -
  have a: "\<And>s. worker_list (fold (\<lambda>item s. s\<lparr>prediction_log := prediction_log s @ [item]\<rparr>) p s)
      = worker_list s"
    by (induction p) auto
  have b: "\<And>s. worker_list (fold (\<lambda>item s. s\<lparr>train_log := train_log s @ [item]\<rparr>) t s)
      = worker_list s"
    by (induction t) auto
  show ?thesis by (simp add: append_job_data_def a b)
qed

lemma save_logs_ok:
  "\<forall>p. io p = None \<Longrightarrow>
     fst (save_logs io self w) = None \<and> stdout (snd (save_logs io self w)) = stdout w"
  by (simp add: save_logs_def Let_def)

text \<open>A drain over two stretches of completions is the drain over the first, and then,
  unless that raised, over the second.\<close>

lemma start_loop_append:
  "start_loop cb io (pre @ post) st =
     (case start_loop cb io pre st of
        (Some e, st') \<Rightarrow> (Some e, st')
      | (None, st') \<Rightarrow> start_loop cb io post st')"
proof (induction pre arbitrary: st)
  case Nil
  then show ?case by (cases st) simp
next
  case (Cons f pre)
  obtain self w where st: "st = (self, w)" by (cases st)
  show ?case unfolding st
    using Cons.IH by (auto simp: Let_def split: sum.splits prod.splits option.splits)
qed

lemma start_single_success:
  "result f = Inr (t, p) \<Longrightarrow>
     \<exists>w'. start None (\<lambda>p. None) [f] (self, w) = (None, append_job_data self t p, w')"
  by (simp add: start_def save_logs_def Let_def)

lemma remove1_filter_failed:
  assumes "distinct wl" "f \<notin> set rest" "\<not> succeeded f"
  shows "filter (\<lambda>g. \<not> (g \<in> set rest \<and> \<not> succeeded g)) (remove1 f wl)
       = filter (\<lambda>g. \<not> (g \<in> set (f # rest) \<and> \<not> succeeded g)) wl"
proof -
  have "remove1 f wl = filter (\<lambda>g. g \<noteq> f) wl"
    using assms(1) by (simp add: distinct_remove1_removeAll removeAll_filter_not_eq) metis
  then show ?thesis using assms(2,3) by (auto intro: filter_cong)
qed

text \<open>
  The drain with a quiet callback and writes that succeed, over distinct futures of the
  worker list: it returns normally exactly when every future it is given is caught, and
  then it has removed the failed futures, appended the rows of the futures in their
  order, and printed the report of each failure.
\<close>

lemma start_loop_drain:
  assumes q: "quiet cb" and io: "\<forall>p. io p = None"
  shows "distinct order \<Longrightarrow> distinct (worker_list self) \<Longrightarrow> set order \<subseteq> set (worker_list self) \<Longrightarrow>
     (case start_loop cb io order (self, w) of (e, self', w') \<Rightarrow>
        (e = None \<longleftrightarrow> list_all caught order)
        \<and> (list_all caught order \<longrightarrow>
             worker_list self' = filter (\<lambda>g. \<not> (g \<in> set order \<and> \<not> succeeded g)) (worker_list self)
             \<and> prediction_log self' = prediction_log self @ concat (map prediction_rows order)
             \<and> train_log self' = train_log self @ concat (map train_rows order)
             \<and> stdout w' = stdout w @ concat (map report order)))"
proof (induction order arbitrary: self w)
  case Nil
  then show ?case by simp
next
  case (Cons f rest)
  have fin: "f \<in> set (worker_list self)" and frest: "f \<notin> set rest" and drest: "distinct rest"
    using Cons.prems by auto
  show ?case
  proof (cases "result f")
    case (Inl exc)
    show ?thesis
    proof (cases "is_Exception exc")
      case False
      have "start_loop cb io (f # rest) (self, w) = (Some exc, self, w)"
        using Inl False by simp
      moreover have "\<not> caught f" using Inl False by (simp add: caught_def)
      ultimately show ?thesis by simp
    next
      case True
      let ?self1 = "self\<lparr>worker_list := remove1 f (worker_list self)\<rparr>"
      let ?w1 = "w\<lparr>stdout := stdout w @ [Text ''ERROR'', StrOf exc]\<rparr>"
      have nf: "\<not> succeeded f" using Inl by (simp add: succeeded_def)
      have cf: "caught f" using Inl True by (simp add: caught_def)
      have step: "start_loop cb io (f # rest) (self, w) = start_loop cb io rest (?self1, ?w1)"
        using Inl True fin by (simp add: list_remove_def Let_def)
      have sub: "set rest \<subseteq> set (worker_list ?self1)"
        using Cons.prems frest by auto
      have d1: "distinct (worker_list ?self1)" using Cons.prems by simp
      have rows: "prediction_rows f = []" "train_rows f = []"
        "report f = [Text ''ERROR'', StrOf exc]"
        using Inl by (simp_all add: prediction_rows_def train_rows_def report_def)
      from Cons.IH[OF drest d1 sub, of ?w1]
      show ?thesis unfolding step
        using remove1_filter_failed[OF Cons.prems(2) frest nf] rows cf
        by (auto split: prod.splits)
    qed
  next
    case (Inr r)
    obtain t p where r: "r = (t, p)" by (cases r)
    let ?self1 = "append_job_data self t p"
    have sf: "succeeded f" using Inr by (simp add: succeeded_def)
    have cf: "caught f" using Inr by (simp add: caught_def)
    have rows: "prediction_rows f = p" "train_rows f = t" "report f = []"
      using Inr r by (simp_all add: prediction_rows_def train_rows_def report_def)
    obtain self2 w2 where cbres: "(case cb of None \<Rightarrow> (None, ?self1, w)
                    | Some g \<Rightarrow> g (?self1, w) (t, p)) = (None, self2, w2)"
       and keep: "worker_list self2 = worker_list ?self1" "prediction_log self2 = prediction_log ?self1"
          "train_log self2 = train_log ?self1" "stdout w2 = stdout w"
    proof (cases cb)
      case None
      then show ?thesis using that by simp
    next
      case (Some g)
      obtain e s2 w2 where g: "g (?self1, w) (t, p) = (e, s2, w2)" by (cases "g (?self1, w) (t, p)")
      from q Some have "\<forall>self w r. case g (self, w) r of (e, self', w') \<Rightarrow>
             e = None \<and> worker_list self' = worker_list self
             \<and> prediction_log self' = prediction_log self \<and> train_log self' = train_log self
             \<and> stdout w' = stdout w"
        by (simp add: quiet_def)
      from this[rule_format, of ?self1 w "(t, p)"] g
      have "e = None \<and> worker_list s2 = worker_list ?self1
           \<and> prediction_log s2 = prediction_log ?self1 \<and> train_log s2 = train_log ?self1
           \<and> stdout w2 = stdout w"
        by simp
      then show ?thesis using that[of s2 w2] Some g by simp
    qed
    obtain w3 where sv: "save_logs io self2 w2 = (None, w3)" and out3: "stdout w3 = stdout w2"
      using save_logs_ok[OF io, of self2 w2] by (cases "save_logs io self2 w2") auto
    have step: "start_loop cb io (f # rest) (self, w) = start_loop cb io rest (self2, w3)"
      using Inr r cbres sv by (simp add: Let_def)
    have wl2: "worker_list self2 = worker_list self"
      using keep by (simp add: append_job_data_worker_list)
    have sub: "set rest \<subseteq> set (worker_list self2)" using Cons.prems wl2 by auto
    have d2: "distinct (worker_list self2)" using Cons.prems wl2 by simp
    have filt: "filter (\<lambda>g. \<not> (g \<in> set rest \<and> \<not> succeeded g)) (worker_list self)
       = filter (\<lambda>g. \<not> (g \<in> set (f # rest) \<and> \<not> succeeded g)) (worker_list self)"
      using sf by (auto intro: filter_cong)
    from Cons.IH[OF drest d2 sub, of w3]
    show ?thesis unfolding step
      using rows keep out3 wl2 filt cf
      by (auto simp: append_job_data_prediction_log append_job_data_train_log split: prod.splits)
  qed
qed


lemma concat_rows_succeeded:
  "concat (map train_rows (filter succeeded fs)) = concat (map train_rows fs)"
  "concat (map prediction_rows (filter succeeded fs)) = concat (map prediction_rows fs)"
  by (induction fs) (auto simp: succeeded_def train_rows_def prediction_rows_def split: sum.splits)


lemma pending0_simps:
  "worker_list pending0 = [failed0, done1, done2]" "prediction_log pending0 = []"
  "train_log pending0 = []"
  by (simp_all add: pending0_def analyser0_simps)

lemma futures0:
  "succeeded done1" "succeeded done2" "\<not> succeeded failed0"
  "length (train_rows done1) = 2" "length (train_rows done2) = 1"
  "length (prediction_rows done1) = 1" "length (prediction_rows done2) = 2"
  "report failed0 = [Text ''ERROR'', StrOf (Exception ''boom'')]" "report done1 = []"
  "report done2 = []"
  "failed0 \<noteq> done1" "failed0 \<noteq> done2" "done1 \<noteq> done2"
  "caught failed0" "caught done1" "caught done2"
  by (simp_all add: succeeded_def train_rows_def prediction_rows_def report_def caught_def
        failed0_def done1_def done2_def)

lemma pending0_orders:
  "distinct (worker_list pending0)"
  "as_completed (worker_list pending0) [failed0, done1, done2]"
  "as_completed (worker_list pending0) [done2, failed0, done1]"
  using futures0(11-13) by (auto simp: pending0_simps as_completed_def)

lemma caught_as_completed:
  "as_completed fs order \<Longrightarrow> list_all caught order = list_all caught fs"
  by (auto simp: as_completed_def list_all_iff)

text \<open>
  Claim C3, as stated, at a batch in which a unit of work raises \<open>SystemExit\<close>: three
  futures, completing in the order successful, exited, successful. The exception
  leaves \<open>start\<close>; the exited future is still in the worker list, nothing is printed,
  and the job that completed after it is not merged (one training row and two
  prediction rows, those of the first completion, instead of three and three).
\<close>

theorem start_raises_on_exit_counterexample:
  "fst exit_drain0 = Some (SystemExit 3)
   \<and> worker_list (fst (snd exit_drain0)) = [exited0, done1, done2]
   \<and> stdout (snd (snd exit_drain0)) = []
   \<and> length (train_log (fst (snd exit_drain0))) = 1
   \<and> length (prediction_log (fst (snd exit_drain0))) = 2"
proof -
  have r2: "result done2 = Inr (train_rows done2, prediction_rows done2)"
    by (simp add: done2_def train_rows_def prediction_rows_def)
  have rx: "result exited0 = Inl (SystemExit 3)" by (simp add: exited0_def)
  have p: "worker_list pending_exit0 = [exited0, done1, done2]"
    "train_log pending_exit0 = []" "prediction_log pending_exit0 = []"
    by (simp_all add: pending_exit0_def analyser0_simps)
  obtain w' where one: "start_loop None no_write_error [done2] (pending_exit0, world0)
      = (None, append_job_data pending_exit0 (train_rows done2) (prediction_rows done2), w')"
    and out: "stdout w' = []"
    using r2 by (simp add: save_logs_def no_write_error_def Let_def world0_def)
  have "exit_drain0 = start_loop None no_write_error ([done2] @ [exited0, done1])
                        (pending_exit0, world0)"
    by (simp add: exit_drain0_def start_def)
  also have "\<dots> = (Some (SystemExit 3),
       append_job_data pending_exit0 (train_rows done2) (prediction_rows done2), w')"
    unfolding start_loop_append one using rx by simp
  finally have e: "exit_drain0 = (Some (SystemExit 3),
       append_job_data pending_exit0 (train_rows done2) (prediction_rows done2), w')" .
  show ?thesis
    unfolding e using out p futures0(5,7)
    by (simp add: append_job_data_worker_list append_job_data_train_log
          append_job_data_prediction_log)
qed

text \<open>
  Claim C3, amended: \<open>start\<close> does not raise on the failure of a job whose unit of
  work raised an instance of \<open>Exception\<close>. With a quiet callback and log writes that
  succeed, for every worker list of distinct futures that are all caught, any mix of
  failed and successful ones, and every completion order: \<open>start\<close> returns normally,
  the failed futures are removed from the worker list (the successful ones stay), the
  line \<open>ERROR\<close> and the exception are printed for each failure in completion order,
  and the rows of every successful job are appended to the two aggregate logs.
\<close>

theorem start_survives_failed_jobs:
  assumes "quiet job_completed" and "\<forall>p. to_csv_raises p = None"
    and "distinct (worker_list self)" and "as_completed (worker_list self) order"
    and "list_all caught (worker_list self)"
  shows "case start job_completed to_csv_raises order (self, w) of (e, self', w') \<Rightarrow>
           e = None
           \<and> worker_list self' = filter succeeded (worker_list self)
           \<and> stdout w' = stdout w @ concat (map report order)
           \<and> prediction_log self' =
               prediction_log self @ concat (map prediction_rows (filter succeeded order))
           \<and> train_log self' = train_log self @ concat (map train_rows (filter succeeded order))"
proof -
  have d: "distinct order" and s: "set order = set (worker_list self)"
    using assms(4) by (simp_all add: as_completed_def)
  have f: "filter (\<lambda>g. \<not> (g \<in> set order \<and> \<not> succeeded g)) (worker_list self)
      = filter succeeded (worker_list self)"
    using s by (auto intro: filter_cong)
  have sub: "set order \<subseteq> set (worker_list self)" using s by simp
  have c: "list_all caught order" using caught_as_completed[OF assms(4)] assms(5) by simp
  from start_loop_drain[OF assms(1,2) d assms(3) sub, of w] c
  show ?thesis unfolding start_def f
    by (auto simp: concat_rows_succeeded split: prod.splits)
qed

text \<open>
  The amended claim C3 at a worker list of one failed and two successful futures, the
  failed one (an \<open>Exception\<close>) completing between the other two: \<open>start\<close> returns, the
  two successful futures remain, the failure is printed, and the three prediction
  rows and three training rows of the successful jobs are in the logs.
\<close>

theorem start_survives_failed_jobs_witness:
  "quiet None \<and> distinct (worker_list pending0)
   \<and> as_completed (worker_list pending0) [done2, failed0, done1]
   \<and> list_all caught (worker_list pending0)
   \<and> (case start None (\<lambda>p. None) [done2, failed0, done1] (pending0, world0) of
         (e, self', w') \<Rightarrow>
           e = None \<and> worker_list self' = [done1, done2]
           \<and> stdout w' = [Text ''ERROR'', StrOf (Exception ''boom'')]
           \<and> length (prediction_log self') = 3 \<and> length (train_log self') = 3)"
proof -
  have h1: "quiet None" by (simp add: quiet_def)
  have h2: "\<forall>p. (\<lambda>p. None :: exn option) (p :: string) = None" by simp
  have h5: "list_all caught (worker_list pending0)" by (simp add: pending0_simps futures0)
  from start_survives_failed_jobs[OF h1 h2 pending0_orders(1) pending0_orders(3) h5,
         where w = world0]
  have "case start None (\<lambda>p. None) [done2, failed0, done1] (pending0, world0) of
         (e, self', w') \<Rightarrow>
           e = None \<and> worker_list self' = [done1, done2]
           \<and> stdout w' = [Text ''ERROR'', StrOf (Exception ''boom'')]
           \<and> length (prediction_log self') = 3 \<and> length (train_log self') = 3"
    by (auto simp: pending0_simps futures0 world0_def split: prod.splits)
  then show ?thesis using h1 h5 pending0_orders by blast
qed



lemma job_failing0_raises:
  "snd (start_job worker0 (id_analyser submitted0) (\<lambda>x y kv. Inr net_failing0)
          (PyObj 1, PyObj 2) tests0 Map.empty) = Inl (Exception ''boom'')"
  by (simp add: submitted0_def submit_simps analyser0_simps start_job_def worker0_def
        train_def net_failing0_def net0_def Let_def)

lemma job_failing0_partial_rows:
  "\<exists>a job. fst (start_job worker0 (id_analyser submitted0) (\<lambda>x y kv. Inr net_failing0)
                  (PyObj 1, PyObj 2) tests0 Map.empty) ''A'' = Some a
     \<and> job_list a ''J'' = Some job \<and> length (train_data job) = 3"
  by (simp add: submitted0_def submit_simps analyser0_simps start_job_def worker0_def
        train_def net_failing0_def net0_def Let_def AnalyserJob_def add_to_train_log_def)

lemma submitted0_simps:
  "\<exists>t1 t2 t3 p1 p2.
     worker_list submitted0 = [\<lparr>fid = 0, result = Inr ([t1, t2, t3], [p1, p2])\<rparr>]"
  "train_log submitted0 = []" "prediction_log submitted0 = []"
proof -
  obtain cache' t1 t2 t3 p1 p2 where
    "start_job worker0 ''A'' (\<lambda>x y kv. Inr net0) (PyObj 1, PyObj 2) tests0 Map.empty
       = (cache', Inr ([t1, t2, t3], [p1, p2]))"
    using job0_returns by blast
  then show "\<exists>t1 t2 t3 p1 p2.
     worker_list submitted0 = [\<lparr>fid = 0, result = Inr ([t1, t2, t3], [p1, p2])\<rparr>]"
    by (simp add: submitted0_def submit_simps analyser0_simps)
  show "train_log submitted0 = []" "prediction_log submitted0 = []"
    by (simp_all add: submitted0_def submit_simps analyser0_simps)
qed

text \<open>
  Claim C2: a job whose unit of work raises adds no row to either aggregate log,
  whatever it had recorded before it raised. For the future that \<open>submit\<close> creates for
  such a job, and for any drain in which it completes (after any completions \<open>pre\<close>,
  from any state, with any callback and any behaviour of the log writes): both logs
  are after its completion what the drain had made them before it.
\<close>

theorem failed_job_adds_no_rows:
  assumes "future = last (worker_list (submit wk self neuralnet_class train_set test_sets kvargs))"
    and "snd (start_job wk (id_analyser self) neuralnet_class train_set test_sets kvargs) = Inl exc"
  shows "prediction_log (fst (snd (start job_completed to_csv_raises (pre @ [future]) st)))
           = prediction_log (fst (snd (start job_completed to_csv_raises pre st)))
         \<and> train_log (fst (snd (start job_completed to_csv_raises (pre @ [future]) st)))
           = train_log (fst (snd (start job_completed to_csv_raises pre st)))"
proof -
  have r: "result future = Inl exc"
    using assms by (simp add: submit_def executor_submit_def Let_def)
  obtain e self1 w1 where p: "start_loop job_completed to_csv_raises pre st = (e, self1, w1)"
    by (cases "start_loop job_completed to_csv_raises pre st")
  show ?thesis
    unfolding start_def start_loop_append p using r
    by (cases e) (auto simp: Let_def list_remove_def)
qed

text \<open>
  Claim C2 at a job whose training raises after three iterations, submitted after a
  job that succeeds: the worker's job holds three training records when it fails, and
  the drain of both futures leaves in the logs what the drain of the first alone
  leaves, the three training rows and two prediction rows of the first job.
\<close>

theorem failed_job_adds_no_rows_witness:
  "snd (start_job worker0 (id_analyser submitted0) (\<lambda>x y kv. Inr net_failing0)
          (PyObj 1, PyObj 2) tests0 Map.empty) = Inl (Exception ''boom'')
   \<and> (\<exists>a job. fst (start_job worker0 (id_analyser submitted0) (\<lambda>x y kv. Inr net_failing0)
                  (PyObj 1, PyObj 2) tests0 Map.empty) ''A'' = Some a
         \<and> job_list a ''J'' = Some job \<and> length (train_data job) = 3)
   \<and> prediction_log (fst (snd (start None (\<lambda>p. None)
         ([hd (worker_list submitted_both0)] @ [last (worker_list submitted_both0)])
         (submitted_both0, world0))))
     = prediction_log (fst (snd (start None (\<lambda>p. None) [hd (worker_list submitted_both0)]
         (submitted_both0, world0))))
   \<and> train_log (fst (snd (start None (\<lambda>p. None)
         ([hd (worker_list submitted_both0)] @ [last (worker_list submitted_both0)])
         (submitted_both0, world0))))
     = train_log (fst (snd (start None (\<lambda>p. None) [hd (worker_list submitted_both0)]
         (submitted_both0, world0))))
   \<and> length (train_log (fst (snd (start None (\<lambda>p. None)
         ([hd (worker_list submitted_both0)] @ [last (worker_list submitted_both0)])
         (submitted_both0, world0))))) = 3
   \<and> length (prediction_log (fst (snd (start None (\<lambda>p. None)
         ([hd (worker_list submitted_both0)] @ [last (worker_list submitted_both0)])
         (submitted_both0, world0))))) = 2"
proof -
  let ?wl = "worker_list submitted_both0"
  have fut: "last ?wl = last (worker_list (submit worker0 submitted0
               (\<lambda>x y kv. Inr net_failing0) (PyObj 1, PyObj 2) tests0 Map.empty))"
    by (simp add: submitted_both0_def)
  note same = failed_job_adds_no_rows[OF fut job_failing0_raises,
      where job_completed = None and to_csv_raises = "\<lambda>p. None" and pre = "[hd ?wl]"
        and st = "(submitted_both0, world0)"]
  obtain t1 t2 t3 p1 p2 where
    wl0: "worker_list submitted0 = [\<lparr>fid = 0, result = Inr ([t1, t2, t3], [p1, p2])\<rparr>]"
    using submitted0_simps(1) by blast
  have h: "result (hd ?wl) = Inr ([t1, t2, t3], [p1, p2])"
    by (simp add: submitted_both0_def submit_simps wl0)
  have logs: "train_log submitted_both0 = []" "prediction_log submitted_both0 = []"
    by (simp_all add: submitted_both0_def submit_simps submitted0_simps)
  obtain w' where one: "start None (\<lambda>p. None) [hd ?wl] (submitted_both0, world0)
      = (None, append_job_data submitted_both0 [t1, t2, t3] [p1, p2], w')"
    using start_single_success[OF h] by blast
  have len: "length (train_log (fst (snd (start None (\<lambda>p. None) [hd ?wl]
                 (submitted_both0, world0))))) = 3"
      "length (prediction_log (fst (snd (start None (\<lambda>p. None) [hd ?wl]
                 (submitted_both0, world0))))) = 2"
    unfolding one by (simp_all add: append_job_data_train_log append_job_data_prediction_log logs)
  show ?thesis
    using same len job_failing0_raises job_failing0_partial_rows by simp
qed

text \<open>
  Claim C1, on the code: one job (three training rows, two prediction rows) is
  submitted and drained; its future succeeded, so it stays in the worker list (only the
  handler of a failure removes a future). A second \<open>start\<close> with no new submission
  drains it again and appends its rows again: six training rows and four prediction
  rows, the rows of the first drain twice.
\<close>

theorem second_start_merges_again:
  "worker_list (fst drained0) = worker_list submitted0
   \<and> length (worker_list submitted0) = 1
   \<and> length (train_log (fst drained0)) = 3
   \<and> length (prediction_log (fst drained0)) = 2
   \<and> length (train_log (fst drained_again0)) = 6
   \<and> length (prediction_log (fst drained_again0)) = 4
   \<and> train_log (fst drained_again0) = train_log (fst drained0) @ train_log (fst drained0)
   \<and> prediction_log (fst drained_again0)
       = prediction_log (fst drained0) @ prediction_log (fst drained0)"
proof -
  obtain t1 t2 t3 p1 p2 where
    wl0: "worker_list submitted0 = [\<lparr>fid = 0, result = Inr ([t1, t2, t3], [p1, p2])\<rparr>]"
    using submitted0_simps(1) by blast
  let ?f = "\<lparr>fid = 0, result = Inr ([t1, t2, t3], [p1, p2])\<rparr>"
  have r: "result ?f = Inr ([t1, t2, t3], [p1, p2])" by simp
  let ?s1 = "append_job_data submitted0 [t1, t2, t3] [p1, p2]"
  obtain w1 where one: "start None (\<lambda>p. None) [?f] (submitted0, world0) = (None, ?s1, w1)"
    using start_single_success[OF r] by blast
  have d0: "drained0 = (?s1, w1)" by (simp add: drained0_def wl0 one)
  have wl1: "worker_list ?s1 = [?f]" by (simp add: append_job_data_worker_list wl0)
  let ?s2 = "append_job_data ?s1 [t1, t2, t3] [p1, p2]"
  obtain w2 where two: "start None (\<lambda>p. None) [?f] (?s1, w1) = (None, ?s2, w2)"
    using start_single_success[OF r] by blast
  have d1: "drained_again0 = (?s2, w2)" by (simp add: drained_again0_def d0 wl1 two)
  show ?thesis
    unfolding d0 d1
    by (simp add: wl0 append_job_data_worker_list append_job_data_train_log
          append_job_data_prediction_log submitted0_simps(2,3))
qed

end
